theory Spec2Isabelle
  imports Main
begin

section \<open>The event envelope (events/index.ts)\<close>

text \<open>
  The six constant tables of event-type strings.  At run time an \<open>EventType\<close> is a
  plain string; the union type \<open>EventType\<close> exists only for the TypeScript compiler.
\<close>

definition TransactionEvents :: "string list" where
  "TransactionEvents =
     [''TransactionInitiated'', ''TransactionAnalyzing'', ''TransactionApproved'',
      ''TransactionRejected'', ''TransactionCompleted'', ''TransactionFailed'',
      ''TransactionCancelled'', ''TransactionWaitingReview'']"

definition FraudEvents :: "string list" where
  "FraudEvents =
     [''FraudAnalysisComplete'', ''FraudSuspected'', ''FraudReviewComplete'',
      ''ManualReviewRequired'', ''BlocklistMatch'']"

definition UserEvents :: "string list" where
  "UserEvents = [''UserCreated'', ''UserUpdated'', ''UserLocked'', ''UserPasswordChanged'']"

definition SecurityEvents :: "string list" where
  "SecurityEvents =
     [''user.login.success'', ''user.login.failed'', ''user.mfa.enabled'',
      ''user.mfa.disabled'', ''security.all_tokens_revoked'', ''jwt.key.rotated'',
      ''security.anomaly_detected'', ''user.registered'', ''user.email.verified'',
      ''user.password.reset_requested'', ''user.password.reset'',
      ''user.device.registered'', ''user.device.revoked'', ''session.created'',
      ''session.terminated'']"

definition NotificationEvents :: "string list" where
  "NotificationEvents = [''NotificationSent'', ''NotificationFailed'', ''NotificationRequested'']"

definition AMLEvents :: "string list" where
  "AMLEvents = [''AMLScreeningComplete'', ''SARFiled'', ''RiskProfileUpdated'']"

text \<open>Membership in the union type \<open>EventType\<close>, as a run-time predicate on strings.\<close>

definition is_EventType :: "string \<Rightarrow> bool" where
  "is_EventType s =
     (s \<in> set (TransactionEvents @ FraudEvents @ UserEvents @ SecurityEvents
                @ NotificationEvents @ AMLEvents))"

subsection \<open>Errors\<close>

text \<open>
  A thrown value.  \<open>Error m\<close> is \<open>new Error(m)\<close>; \<open>TypeError m\<close> is what the
  runtime raises when a null reference is called.  Failures of the transport and of the
  application handler are values of this type as well.
\<close>

datatype error = Error string | TypeError string

definition ConsumerNotInitialized :: error where
  "ConsumerNotInitialized = Error ''Consumer not initialized''"

definition HandlerNotSet :: error where
  "HandlerNotSet = Error ''Message handler not set''"

subsection \<open>JSON values\<close>

text \<open>
  What a payload (\<open>Record<string, unknown>\<close>) can hold, as far as \<open>JSON.stringify\<close>
  tells values apart.  The first six constructors are the values it writes out;
  \<open>JUndefined\<close> is \<open>undefined\<close>, a function or a symbol, which it leaves out of an
  object and writes as \<open>null\<close> in an array.  The last three are the values it rejects:
  \<^item> \<open>JBigInt n\<close>: a \<open>BigInt\<close>, on which it throws a \<open>TypeError\<close>;
  \<^item> \<open>JCircular\<close>: a reference back to an enclosing object, which makes the structure
    cyclic; it throws a \<open>TypeError\<close>;
  \<^item> \<open>JThrows e\<close>: a value whose \<open>toJSON\<close> method or property getter throws \<open>e\<close>.
\<close>

datatype json =
    JNull
  | JBool bool
  | JNumber int
  | JString string
  | JArray "json list"
  | JObject "(string \<times> json) list"
  | JUndefined
  | JBigInt int
  | JCircular
  | JThrows error

text \<open>
  The error \<open>JSON.stringify\<close> throws on a value, if any: it walks the value depth first,
  in property order, and the first rejected value it meets raises.
\<close>

fun first_error :: "error option list \<Rightarrow> error option" where
  "first_error [] = None"
| "first_error (None # es) = first_error es"
| "first_error (Some e # es) = Some e"

fun stringify_error :: "json \<Rightarrow> error option" where
  "stringify_error (JBigInt n) = Some (TypeError ''Do not know how to serialize a BigInt'')"
| "stringify_error JCircular = Some (TypeError ''Converting circular structure to JSON'')"
| "stringify_error (JThrows e) = Some e"
| "stringify_error (JArray xs) = first_error (map stringify_error xs)"
| "stringify_error (JObject kvs) = first_error (map (\<lambda>kv. stringify_error (snd kv)) kvs)"
| "stringify_error _ = None"

subsection \<open>The transport (kafkajs) as seen from this library\<close>

datatype CompressionTypes = GZIP

record KafkaMessage =
  m_key :: string
  m_value :: string
  m_headers :: "string \<rightharpoonup> string"

record ProducerRecord =
  pr_topic :: string
  pr_compression :: CompressionTypes
  pr_messages :: "KafkaMessage list"

record RecordMetadata =
  topicName :: string
  partition :: nat
  errorCode :: int
  offset :: string

record ProducerOptions =
  allowAutoTopicCreation :: bool
  transactionTimeout :: nat
  idempotent :: bool

record ConsumerOptions =
  groupId :: string
  sessionTimeout :: nat
  heartbeatInterval :: nat

text \<open>
  Every primitive of the transport that the library invokes.  \<open>Commit\<close> is never invoked
  by the library: it is what the transport itself records when its \<open>eachMessage\<close>
  callback has returned normally.
\<close>

datatype transport_call =
    CreateProducer ProducerOptions
  | ProducerConnect
  | ProducerDisconnect
  | ProducerSend ProducerRecord
  | ConsumerConnect
  | ConsumerDisconnect
  | ConsumerSubscribe "string list" bool
  | ConsumerRun
  | ConsumerStop
  | ConsumerPause "string list"
  | ConsumerResume "string list"
  | Commit string nat string

datatype level = Debug | Info | Warn | Err

subsection \<open>The world outside the library\<close>

text \<open>
  Everything the code reads from or writes to outside its own objects:
  \<^item> \<open>uuid_src\<close>, \<open>uuid_idx\<close>: the uuid package; the \<open>i\<close>-th call of \<open>uuidv4()\<close>
    returns \<open>uuid_src i\<close>;
  \<^item> \<open>time_src\<close>, \<open>time_idx\<close>: the system clock in milliseconds; the \<open>i\<close>-th reading
    (\<open>new Date()\<close>, \<open>Date.now()\<close>) returns \<open>time_src i\<close>;
  \<^item> \<open>toISOString\<close>, \<open>json_text\<close>: the platform's renderings of an instant and of
    a JSON value as text (\<open>json_text\<close> is what \<open>JSON.stringify\<close> returns on a value
    it does not reject);
  \<^item> \<open>respond\<close>: the transport's answer to a primitive, given the calls made so far:
    \<open>Inl e\<close> when it throws or rejects with \<open>e\<close>, \<open>Inr md\<close> when it completes
    (\<open>md\<close> is the metadata a send resolves to, ignored for the other primitives);
  \<^item> \<open>calls\<close>: the primitives invoked so far, in order;
  \<^item> \<open>logs\<close>: the lines written to the logger (level and message; the metadata
    objects are not kept).
\<close>

record world =
  uuid_src :: "nat \<Rightarrow> string"
  uuid_idx :: nat
  time_src :: "nat \<Rightarrow> nat"
  time_idx :: nat
  toISOString :: "nat \<Rightarrow> string"
  json_text :: "json \<Rightarrow> string"
  respond :: "transport_call list \<Rightarrow> transport_call \<Rightarrow> error + RecordMetadata list"
  calls :: "transport_call list"
  logs :: "(level \<times> string) list"

definition uuidv4 :: "world \<Rightarrow> string \<times> world" where
  "uuidv4 w = (uuid_src w (uuid_idx w), w\<lparr>uuid_idx := Suc (uuid_idx w)\<rparr>)"

definition Date_now :: "world \<Rightarrow> nat \<times> world" where
  "Date_now w = (time_src w (time_idx w), w\<lparr>time_idx := Suc (time_idx w)\<rparr>)"

definition invoke :: "transport_call \<Rightarrow> world \<Rightarrow> (error + RecordMetadata list) \<times> world" where
  "invoke c w = (respond w (calls w) c, w\<lparr>calls := calls w @ [c]\<rparr>)"

text \<open>\<open>JSON.stringify(v)\<close>: throws on a value it rejects, returns the text otherwise.\<close>

definition JSON_stringify :: "world \<Rightarrow> json \<Rightarrow> error + string" where
  "JSON_stringify w v = (case stringify_error v of Some e \<Rightarrow> Inl e | None \<Rightarrow> Inr (json_text w v))"

definition log :: "level \<Rightarrow> string \<Rightarrow> world \<Rightarrow> world" where
  "log l msg w = w\<lparr>logs := logs w @ [(l, msg)]\<rparr>"

subsection \<open>BaseEvent and createBaseEvent\<close>

text \<open>
  \<open>timestamp\<close> holds the instant of \<open>new Date()\<close> in milliseconds since the epoch; the
  source stores its \<open>toISOString()\<close> rendering, which \<open>message_json\<close> applies when the
  event is written out.  An optional property that is absent or \<open>undefined\<close> is \<open>None\<close>.
\<close>

record BaseEvent =
  eventId :: string
  eventType :: string
  timestamp :: nat
  version :: string
  correlationId :: "string option"
  causationId :: "string option"
  source :: string

definition createBaseEvent :: "string \<Rightarrow> string \<Rightarrow> world \<Rightarrow> BaseEvent \<times> world" where
  "createBaseEvent eventType' source' w =
     (let (uuid, w1) = uuidv4 w;
          (now, w2) = Date_now w1
      in (\<lparr>eventId = uuid,
           eventType = eventType',
           timestamp = now,
           version = ''1.0'',
           correlationId = None,
           causationId = None,
           source = source'\<rparr>, w2))"

section \<open>The producer (kafka/producer.ts)\<close>

record ProducerConfig =
  pc_clientId :: string
  pc_brokers :: "string list"
  pc_serviceName :: string
  pc_retries :: "nat option"
  pc_initialRetryTime :: "nat option"

record PublishOptions =
  o_correlationId :: "string option"
  o_headers :: "(string \<rightharpoonup> string) option"

text \<open>The configuration handed to \<open>new Kafka(...)\<close>.\<close>

record KafkaConfig =
  kc_clientId :: string
  kc_brokers :: "string list"
  kc_initialRetryTime :: nat
  kc_retries :: nat

text \<open>\<open>x || d\<close> on an optional number: \<open>undefined\<close> and \<open>0\<close> are both falsy.\<close>

definition or_default :: "nat option \<Rightarrow> nat \<Rightarrow> nat" where
  "or_default x d = (case x of None \<Rightarrow> d | Some n \<Rightarrow> if n = 0 then d else n)"

text \<open>\<open>x || ''\<close> on an optional string: \<open>undefined\<close> and the empty string give \<open>''\<close>.\<close>

definition or_empty :: "string option \<Rightarrow> string" where
  "or_empty x = (case x of None \<Rightarrow> [] | Some s \<Rightarrow> s)"

text \<open>\<open>options?.correlationId\<close> and the properties that \<open>...options?.headers\<close> spreads.\<close>

definition opt_correlationId :: "PublishOptions option \<Rightarrow> string option" where
  "opt_correlationId options = (case options of None \<Rightarrow> None | Some o' \<Rightarrow> o_correlationId o')"

definition opt_headers :: "PublishOptions option \<Rightarrow> (string \<rightharpoonup> string)" where
  "opt_headers options =
     (case options of
        None \<Rightarrow> Map.empty
      | Some o' \<Rightarrow> (case o_headers o' of None \<Rightarrow> Map.empty | Some h \<Rightarrow> h))"

text \<open>
  A header object is a finite map from names to values.  The object literal
  \<open>{ ...base, ...extra }\<close> is \<open>base ++ extra\<close>: a name that \<open>extra\<close> defines takes the
  value \<open>extra\<close> gives it, every other name keeps the value it has in \<open>base\<close>.
\<close>

text \<open>
  The object \<open>{ ...event, payload }\<close> as \<open>JSON.stringify\<close> sees it: the properties of
  the event in the order they were created, an \<open>undefined\<close> property left out.
\<close>

definition message_json :: "world \<Rightarrow> BaseEvent \<Rightarrow> json \<Rightarrow> json" where
  "message_json w event payload =
     JObject
       ([(''eventId'', JString (eventId event)),
         (''eventType'', JString (eventType event)),
         (''timestamp'', JString (toISOString w (timestamp event))),
         (''version'', JString (version event)),
         (''source'', JString (source event))]
        @ (case correlationId event of None \<Rightarrow> [] | Some c \<Rightarrow> [(''correlationId'', JString c)])
        @ (case causationId event of None \<Rightarrow> [] | Some c \<Rightarrow> [(''causationId'', JString c)])
        @ [(''payload'', payload)])"

record BaseProducer =
  p_kafka :: KafkaConfig
  p_producer :: "ProducerOptions option"
  p_isConnected :: bool
  p_serviceName :: string
  p_eventVersion :: string

definition BaseProducer_new :: "ProducerConfig \<Rightarrow> BaseProducer" where
  "BaseProducer_new config =
     \<lparr>p_kafka = \<lparr>kc_clientId = pc_clientId config,
                 kc_brokers = pc_brokers config,
                 kc_initialRetryTime = or_default (pc_initialRetryTime config) 100,
                 kc_retries = or_default (pc_retries config) 5\<rparr>,
      p_producer = None,
      p_isConnected = False,
      p_serviceName = pc_serviceName config,
      p_eventVersion = ''1.0''\<rparr>"

definition producer_options :: ProducerOptions where
  "producer_options =
     \<lparr>allowAutoTopicCreation = True, transactionTimeout = 30000, idempotent = True\<rparr>"

definition BaseProducer_connect ::
  "BaseProducer \<Rightarrow> world \<Rightarrow> (error + unit) \<times> BaseProducer \<times> world" where
  "BaseProducer_connect p w =
     (if p_isConnected p then (Inr (), p, w)
      else
        (let (r1, w1) = invoke (CreateProducer producer_options) w in
         case r1 of
           Inl e \<Rightarrow> (Inl e, p, log Err ''Failed to connect Kafka producer'' w1)
         | Inr _ \<Rightarrow>
             (let p1 = p\<lparr>p_producer := Some producer_options\<rparr>;
                  (r2, w2) = invoke ProducerConnect w1
              in case r2 of
                   Inl e \<Rightarrow> (Inl e, p1, log Err ''Failed to connect Kafka producer'' w2)
                 | Inr _ \<Rightarrow>
                     (Inr (), p1\<lparr>p_isConnected := True\<rparr>,
                      log Info ''Kafka producer connected'' w2))))"

definition BaseProducer_disconnect ::
  "BaseProducer \<Rightarrow> world \<Rightarrow> (error + unit) \<times> BaseProducer \<times> world" where
  "BaseProducer_disconnect p w =
     (if p_producer p \<noteq> None \<and> p_isConnected p then
        (let (r, w1) = invoke ProducerDisconnect w in
         case r of
           Inl e \<Rightarrow> (Inl e, p, w1)
         | Inr _ \<Rightarrow>
             (Inr (), p\<lparr>p_isConnected := False\<rparr>, log Info ''Kafka producer disconnected'' w1))
      else (Inr (), p, w))"

text \<open>
  \<open>publish\<close> resolves to the transport's metadata (\<open>Inr (Some md)\<close>), resolves to
  \<open>null\<close> (\<open>Inr None\<close>), or rejects (\<open>Inl e\<close>).  It assigns no field of the producer.
  Inside the \<open>try\<close> the argument of \<open>send\<close> is evaluated first, so an error thrown by
  \<open>JSON.stringify(message)\<close> reaches the \<open>catch\<close> before \<open>send\<close> is called.
\<close>

definition BaseProducer_publish ::
  "BaseProducer \<Rightarrow> string \<Rightarrow> string \<Rightarrow> json \<Rightarrow> string \<Rightarrow> PublishOptions option \<Rightarrow> world
     \<Rightarrow> (error + RecordMetadata list option) \<times> world" where
  "BaseProducer_publish p topic eventType' payload key options w =
     (if p_producer p = None \<or> \<not> p_isConnected p then
        (Inr None, log Warn ''Kafka producer not connected, event logged locally'' w)
      else
        (let (base, w1) = createBaseEvent eventType' (p_serviceName p) w;
             event = base\<lparr>correlationId := opt_correlationId options\<rparr>;
             message = message_json w1 event payload
         in case JSON_stringify w1 message of
              Inl e \<Rightarrow> (Inl e, log Err ''Failed to publish message'' w1)
            | Inr value \<Rightarrow>
                (let (r, w2) =
                       invoke
                         (ProducerSend
                            \<lparr>pr_topic = topic,
                             pr_compression = GZIP,
                             pr_messages =
                               [\<lparr>m_key = key,
                                 m_value = value,
                                 m_headers =
                                   [''event-type'' \<mapsto> eventType',
                                    ''event-version'' \<mapsto> p_eventVersion p,
                                    ''source-service'' \<mapsto> p_serviceName p,
                                    ''correlation-id'' \<mapsto> or_empty (opt_correlationId options)]
                                   ++ opt_headers options\<rparr>]\<rparr>)
                         w1
                 in case r of
                      Inr result \<Rightarrow> (Inr (Some result), log Debug ''Message published'' w2)
                    | Inl e \<Rightarrow> (Inl e, log Err ''Failed to publish message'' w2))))"

record BatchMessage =
  bm_eventType :: string
  bm_payload :: json
  bm_key :: string

text \<open>
  \<open>Array.prototype.map\<close> with a callback that reads the uuid source and the clock and
  may throw: the elements are visited in order, and the first exception ends the loop.
\<close>

fun map_world ::
  "('a \<Rightarrow> world \<Rightarrow> (error + 'b) \<times> world) \<Rightarrow> 'a list \<Rightarrow> world \<Rightarrow> (error + 'b list) \<times> world" where
  "map_world f [] w = (Inr [], w)"
| "map_world f (x # xs) w =
     (case f x w of
        (Inl e, w1) \<Rightarrow> (Inl e, w1)
      | (Inr y, w1) \<Rightarrow>
          (case map_world f xs w1 of
             (Inl e, w2) \<Rightarrow> (Inl e, w2)
           | (Inr ys, w2) \<Rightarrow> (Inr (y # ys), w2)))"

text \<open>The callback of \<open>messages.map\<close> in \<open>publishBatch\<close>.\<close>

definition batchMessage ::
  "BaseProducer \<Rightarrow> PublishOptions option \<Rightarrow> BatchMessage \<Rightarrow> world
     \<Rightarrow> (error + KafkaMessage) \<times> world" where
  "batchMessage p options msg w =
     (let (base, w1) = createBaseEvent (bm_eventType msg) (p_serviceName p) w;
          event = base\<lparr>correlationId := opt_correlationId options\<rparr>
      in case JSON_stringify w1 (message_json w1 event (bm_payload msg)) of
           Inl e \<Rightarrow> (Inl e, w1)
         | Inr value \<Rightarrow>
             (Inr \<lparr>m_key = bm_key msg,
                   m_value = value,
                   m_headers =
                     [''event-type'' \<mapsto> bm_eventType msg,
                      ''event-version'' \<mapsto> p_eventVersion p,
                      ''source-service'' \<mapsto> p_serviceName p]\<rparr>, w1))"

text \<open>
  In \<open>publishBatch\<close> the \<open>messages.map\<close> call is inside the \<open>try\<close>: an
  exception from the callback reaches the \<open>catch\<close> before \<open>send\<close> is called.
\<close>

definition BaseProducer_publishBatch ::
  "BaseProducer \<Rightarrow> string \<Rightarrow> BatchMessage list \<Rightarrow> PublishOptions option \<Rightarrow> world
     \<Rightarrow> (error + RecordMetadata list option) \<times> world" where
  "BaseProducer_publishBatch p topic messages options w =
     (if p_producer p = None \<or> \<not> p_isConnected p then
        (Inr None, log Warn ''Kafka producer not connected, batch logged locally'' w)
      else
        (case map_world (batchMessage p options) messages w of
           (Inl e, w1) \<Rightarrow> (Inl e, log Err ''Failed to publish batch'' w1)
         | (Inr kafkaMessages, w1) \<Rightarrow>
             (let (r, w2) =
                    invoke
                      (ProducerSend
                         \<lparr>pr_topic = topic,
                          pr_compression = GZIP,
                          pr_messages = kafkaMessages\<rparr>)
                      w1
              in case r of
                   Inr result \<Rightarrow> (Inr (Some result), log Debug ''Batch published'' w2)
                 | Inl e \<Rightarrow> (Inl e, log Err ''Failed to publish batch'' w2))))"

definition isProducerConnected :: "BaseProducer \<Rightarrow> bool" where
  "isProducerConnected p = p_isConnected p"

section \<open>The consumer (kafka/consumer.ts)\<close>

record ConsumerHandlerConfig =
  cc_clientId :: string
  cc_brokers :: "string list"
  cc_groupId :: string
  cc_topics :: "string list"

text \<open>What the transport hands to \<open>eachMessage\<close>.\<close>

record EachMessagePayload =
  em_topic :: string
  em_partition :: nat
  em_offset :: string
  em_key :: "string option"
  em_value :: "string option"
  em_headers :: "string \<rightharpoonup> string"

text \<open>
  The application's handler, \<open>(payload) => Promise<void>\<close>: awaited, it either
  completes (\<open>Inr ()\<close>) or raises (\<open>Inl e\<close>).
\<close>

type_synonym MessageHandler = "EachMessagePayload \<Rightarrow> error + unit"

record BaseConsumer =
  c_kafka :: KafkaConfig
  c_consumer :: "ConsumerOptions option"
  c_isConnected :: bool
  c_isRunning :: bool
  c_handler :: "MessageHandler option"
  c_topics :: "string list"

definition BaseConsumer_new :: "ConsumerHandlerConfig \<Rightarrow> BaseConsumer" where
  "BaseConsumer_new config =
     \<lparr>c_kafka = \<lparr>kc_clientId = cc_clientId config,
                 kc_brokers = cc_brokers config,
                 kc_initialRetryTime = 100,
                 kc_retries = 10\<rparr>,
      c_consumer =
        Some \<lparr>groupId = cc_groupId config, sessionTimeout = 30000, heartbeatInterval = 3000\<rparr>,
      c_isConnected = False,
      c_isRunning = False,
      c_handler = None,
      c_topics = cc_topics config\<rparr>"

definition setHandler :: "MessageHandler \<Rightarrow> BaseConsumer \<Rightarrow> BaseConsumer" where
  "setHandler h c = c\<lparr>c_handler := Some h\<rparr>"

definition BaseConsumer_connect ::
  "BaseConsumer \<Rightarrow> world \<Rightarrow> (error + unit) \<times> BaseConsumer \<times> world" where
  "BaseConsumer_connect c w =
     (case c_consumer c of
        None \<Rightarrow> (Inl ConsumerNotInitialized, c, w)
      | Some _ \<Rightarrow>
          (let (r, w1) = invoke ConsumerConnect w in
           case r of
             Inr _ \<Rightarrow> (Inr (), c\<lparr>c_isConnected := True\<rparr>, log Info ''Kafka consumer connected'' w1)
           | Inl e \<Rightarrow> (Inl e, c, log Err ''Failed to connect Kafka consumer'' w1)))"

text \<open>
  The callback that \<open>start\<close> passes to \<open>consumer.run\<close>.  It closes over \<open>this\<close>, so it
  reads the handler registered at the time the message arrives.
\<close>

definition eachMessage ::
  "BaseConsumer \<Rightarrow> EachMessagePayload \<Rightarrow> world \<Rightarrow> (error + unit) \<times> world" where
  "eachMessage c payload w =
     (let (startTime, w1) = Date_now w in
      case (case c_handler c of
              None \<Rightarrow> Inl (TypeError ''this.handler is not a function'')
            | Some h \<Rightarrow> h payload) of
        Inr _ \<Rightarrow>
          (let (endTime, w2) = Date_now w1 in
           (Inr (), log Debug ''Message processed'' w2))
      | Inl e \<Rightarrow> (Inl e, log Err ''Failed to process message'' w1))"

definition BaseConsumer_start ::
  "BaseConsumer \<Rightarrow> world \<Rightarrow> (error + unit) \<times> BaseConsumer \<times> world" where
  "BaseConsumer_start c w =
     (case c_consumer c of
        None \<Rightarrow> (Inl ConsumerNotInitialized, c, w)
      | Some _ \<Rightarrow>
          (case c_handler c of
             None \<Rightarrow> (Inl HandlerNotSet, c, w)
           | Some _ \<Rightarrow>
               (let (r1, w1) = invoke (ConsumerSubscribe (c_topics c) False) w in
                case r1 of
                  Inl e \<Rightarrow> (Inl e, c, log Err ''Failed to start consumer'' w1)
                | Inr _ \<Rightarrow>
                    (let (r2, w2) = invoke ConsumerRun w1 in
                     case r2 of
                       Inl e \<Rightarrow> (Inl e, c, log Err ''Failed to start consumer'' w2)
                     | Inr _ \<Rightarrow>
                         (Inr (), c\<lparr>c_isRunning := True\<rparr>,
                          log Info ''Consumer started'' w2)))))"

definition BaseConsumer_stop ::
  "BaseConsumer \<Rightarrow> world \<Rightarrow> (error + unit) \<times> BaseConsumer \<times> world" where
  "BaseConsumer_stop c w =
     (if c_consumer c \<noteq> None then
        (let (r, w1) = invoke ConsumerStop w in
         case r of
           Inl e \<Rightarrow> (Inl e, c, w1)
         | Inr _ \<Rightarrow> (Inr (), c\<lparr>c_isRunning := False\<rparr>, log Info ''Consumer stopped'' w1))
      else (Inr (), c, w))"

definition BaseConsumer_disconnect ::
  "BaseConsumer \<Rightarrow> world \<Rightarrow> (error + unit) \<times> BaseConsumer \<times> world" where
  "BaseConsumer_disconnect c w =
     (if c_consumer c \<noteq> None \<and> c_isConnected c then
        (let (r, w1) = invoke ConsumerDisconnect w in
         case r of
           Inl e \<Rightarrow> (Inl e, c, w1)
         | Inr _ \<Rightarrow>
             (Inr (), c\<lparr>c_isConnected := False\<rparr>, log Info ''Kafka consumer disconnected'' w1))
      else (Inr (), c, w))"

text \<open>
  \<open>pause\<close> and \<open>resume\<close> assign no field of the consumer; the object is returned as it
  came in, next to the result and the world.
\<close>

definition BaseConsumer_pause ::
  "BaseConsumer \<Rightarrow> world \<Rightarrow> (error + unit) \<times> BaseConsumer \<times> world" where
  "BaseConsumer_pause c w =
     (if c_consumer c \<noteq> None \<and> c_isRunning c then
        (let (r, w1) = invoke (ConsumerPause (c_topics c)) w in
         case r of
           Inl e \<Rightarrow> (Inl e, c, w1)
         | Inr _ \<Rightarrow> (Inr (), c, log Info ''Consumer paused'' w1))
      else (Inr (), c, w))"

definition BaseConsumer_resume ::
  "BaseConsumer \<Rightarrow> world \<Rightarrow> (error + unit) \<times> BaseConsumer \<times> world" where
  "BaseConsumer_resume c w =
     (if c_consumer c \<noteq> None \<and> c_isRunning c then
        (let (r, w1) = invoke (ConsumerResume (c_topics c)) w in
         case r of
           Inl e \<Rightarrow> (Inl e, c, w1)
         | Inr _ \<Rightarrow> (Inr (), c, log Info ''Consumer resumed'' w1))
      else (Inr (), c, w))"

definition isConsumerConnected :: "BaseConsumer \<Rightarrow> bool" where
  "isConsumerConnected c = c_isConnected c"

definition isConsumerRunning :: "BaseConsumer \<Rightarrow> bool" where
  "isConsumerRunning c = c_isRunning c"

subsection \<open>The transport's side of the message loop\<close>

text \<open>
  Modelled from the spec: the transport's \<open>run\<close> loop, which belongs to kafkajs and is
  not part of the repository.  Its contract (section 6 of the specification): it invokes
  the callback once per delivered message and does not advance the committed position
  until the callback has returned successfully.  So \<open>deliver\<close> calls \<open>eachMessage\<close>
  and records the commit of the message's position only after a normal return; when the
  callback throws, nothing is committed and the error comes back from the loop.
\<close>

definition deliver ::
  "BaseConsumer \<Rightarrow> EachMessagePayload \<Rightarrow> world \<Rightarrow> (error + unit) \<times> world" where
  "deliver c payload w =
     (let (r, w1) = eachMessage c payload w in
      case r of
        Inr _ \<Rightarrow>
          (Inr (),
           w1\<lparr>calls := calls w1 @ [Commit (em_topic payload) (em_partition payload) (em_offset payload)]\<rparr>)
      | Inl e \<Rightarrow> (Inl e, w1))"

text \<open>The positions committed so far, read off the trace.\<close>

fun commits :: "transport_call list \<Rightarrow> (string \<times> nat \<times> string) list" where
  "commits [] = []"
| "commits (Commit t p off # cs) = (t, p, off) # commits cs"
| "commits (_ # cs) = commits cs"

text \<open>The records handed to the transport's send primitive so far, read off the trace.\<close>

fun sends :: "transport_call list \<Rightarrow> ProducerRecord list" where
  "sends [] = []"
| "sends (ProducerSend r # cs) = r # sends cs"
| "sends (_ # cs) = sends cs"

section \<open>A concrete world, producer and consumer\<close>

text \<open>
  A scripted world in the manner of the repository's jest mocks: the transport accepts
  every call, the uuid source yields \<open>id-\<close>, \<open>id-x\<close>, \<open>id-xx\<close>, ..., the clock starts
  at 1000 and advances by one millisecond per reading, instants are rendered as decimal
  numbers and JSON values by a small serialiser (it is not asked for the text of a value
  that \<open>JSON.stringify\<close> rejects).
\<close>

fun digits :: "nat \<Rightarrow> string" where
  "digits n =
     (if n < 10 then [char_of (48 + n)] else digits (n div 10) @ [char_of (48 + n mod 10)])"

definition quote :: "string \<Rightarrow> string" where
  "quote s = [CHR 0x22] @ s @ [CHR 0x22]"

fun commas :: "string list \<Rightarrow> string" where
  "commas [] = []"
| "commas [x] = x"
| "commas (x # y # ys) = x @ '','' @ commas (y # ys)"

fun render_json :: "json \<Rightarrow> string" where
  "render_json JNull = ''null''"
| "render_json (JBool b) = (if b then ''true'' else ''false'')"
| "render_json (JNumber n) = (if n < 0 then ''-'' @ digits (nat (- n)) else digits (nat n))"
| "render_json (JString s) = quote s"
| "render_json (JArray xs) = ''['' @ commas (map render_json xs) @ '']''"
| "render_json (JObject kvs) =
     ''{'' @ commas (map (\<lambda>(k, v). quote k @ '':'' @ render_json v) kvs) @ ''}''"
| "render_json _ = []"

definition w0 :: world where
  "w0 =
     \<lparr>uuid_src = (\<lambda>i. ''id-'' @ replicate i CHR ''x''),
      uuid_idx = 0,
      time_src = (\<lambda>i. 1000 + i),
      time_idx = 0,
      toISOString = digits,
      json_text = render_json,
      respond =
        (\<lambda>hist c. case c of
                     ProducerSend r \<Rightarrow>
                       Inr [\<lparr>topicName = pr_topic r, partition = 0, errorCode = 0, offset = ''0''\<rparr>]
                   | _ \<Rightarrow> Inr []),
      calls = [],
      logs = []\<rparr>"

definition cfg0 :: ProducerConfig where
  "cfg0 =
     \<lparr>pc_clientId = ''test-client'', pc_brokers = [''localhost:9092''],
      pc_serviceName = ''test-service'', pc_retries = None, pc_initialRetryTime = None\<rparr>"

text \<open>The producer and the world after \<open>new BaseProducer(cfg0)\<close> and \<open>connect()\<close>.\<close>

definition p_connected :: BaseProducer where
  "p_connected = fst (snd (BaseProducer_connect (BaseProducer_new cfg0) w0))"

definition w_connected :: world where
  "w_connected = snd (snd (BaseProducer_connect (BaseProducer_new cfg0) w0))"

definition ccfg0 :: ConsumerHandlerConfig where
  "ccfg0 =
     \<lparr>cc_clientId = ''test-client'', cc_brokers = [''localhost:9092''],
      cc_groupId = ''test-group'', cc_topics = [''test-topic'']\<rparr>"

definition payload0 :: EachMessagePayload where
  "payload0 =
     \<lparr>em_topic = ''test-topic'', em_partition = 0, em_offset = ''0'',
      em_key = None, em_value = Some ''test'', em_headers = Map.empty\<rparr>"

definition handler_ok :: MessageHandler where
  "handler_ok payload = Inr ()"

definition handler_failing :: MessageHandler where
  "handler_failing payload = Inl (Error ''Processing failed'')"

text \<open>Options that override a standard header, and options that carry a correlation id.\<close>

definition spoofing :: PublishOptions where
  "spoofing = \<lparr>o_correlationId = None, o_headers = Some [''event-type'' \<mapsto> ''Spoofed'']\<rparr>"

definition correlated :: PublishOptions where
  "correlated = \<lparr>o_correlationId = Some ''corr-1'', o_headers = None\<rparr>"

definition batch0 :: "BatchMessage list" where
  "batch0 =
     [\<lparr>bm_eventType = ''UserCreated'', bm_payload = JObject [(''id'', JString ''1'')], bm_key = ''1''\<rparr>,
      \<lparr>bm_eventType = ''UserUpdated'', bm_payload = JObject [(''id'', JString ''2'')], bm_key = ''2''\<rparr>]"

text \<open>A batch whose second payload holds a \<open>BigInt\<close>, as in \<open>{ amount: 10n }\<close>.\<close>

definition batch_bigint :: "BatchMessage list" where
  "batch_bigint =
     [\<lparr>bm_eventType = ''UserCreated'', bm_payload = JObject [(''id'', JString ''1'')], bm_key = ''1''\<rparr>,
      \<lparr>bm_eventType = ''UserUpdated'', bm_payload = JObject [(''amount'', JBigInt 10)], bm_key = ''2''\<rparr>]"

text \<open>The headers of a message under the given names, in the order of the names.\<close>

definition headers_at :: "string list \<Rightarrow> KafkaMessage \<Rightarrow> string option list" where
  "headers_at names m = map (m_headers m) names"

text \<open>
  The consumer and the world after \<open>new BaseConsumer(ccfg0)\<close>, \<open>connect()\<close>,
  \<open>setHandler(handler_ok)\<close> and \<open>start()\<close>.
\<close>

definition c_running :: BaseConsumer where
  "c_running =
     fst (snd (BaseConsumer_start
       (setHandler handler_ok (fst (snd (BaseConsumer_connect (BaseConsumer_new ccfg0) w0))))
       (snd (snd (BaseConsumer_connect (BaseConsumer_new ccfg0) w0)))))"

definition w_running :: world where
  "w_running =
     snd (snd (BaseConsumer_start
       (setHandler handler_ok (fst (snd (BaseConsumer_connect (BaseConsumer_new ccfg0) w0))))
       (snd (snd (BaseConsumer_connect (BaseConsumer_new ccfg0) w0)))))"

section \<open>Basic facts\<close>

declare digits.simps [simp del]

lemma createBaseEvent_eq:
  "createBaseEvent et src w =
     (\<lparr>eventId = uuid_src w (uuid_idx w), eventType = et, timestamp = time_src w (time_idx w),
       version = ''1.0'', correlationId = None, causationId = None, source = src\<rparr>,
      w\<lparr>uuid_idx := Suc (uuid_idx w), time_idx := Suc (time_idx w)\<rparr>)"
  by (simp add: createBaseEvent_def uuidv4_def Date_now_def)

lemma commits_append: "commits (xs @ ys) = commits xs @ commits ys"
  by (induction xs rule: commits.induct) simp_all

lemma sends_append: "sends (xs @ ys) = sends xs @ sends ys"
  by (induction xs rule: sends.induct) simp_all

lemma p_connected_simps:
  "p_isConnected p_connected"
  "p_producer p_connected = Some producer_options"
  "p_serviceName p_connected = ''test-service''"
  "p_eventVersion p_connected = ''1.0''"
  by (simp_all add: p_connected_def BaseProducer_connect_def BaseProducer_new_def invoke_def
        w0_def log_def cfg0_def)

lemma w_connected_eq:
  "w_connected =
     w0\<lparr>calls := [CreateProducer producer_options, ProducerConnect],
        logs := [(Info, ''Kafka producer connected'')]\<rparr>"
  by (simp add: w_connected_def BaseProducer_connect_def BaseProducer_new_def invoke_def
        w0_def log_def cfg0_def)

lemma w0_uuid_nonempty: "\<forall>i. uuid_src w0 i \<noteq> []"
  by (simp add: w0_def)

lemma w0_uuid_inj: "inj (uuid_src w0)"
  by (rule injI) (simp add: w0_def)

lemma w0_time_mono: "mono (time_src w0)"
  by (rule monoI) (simp add: w0_def)

lemma w_connected_fields:
  "calls w_connected = [CreateProducer producer_options, ProducerConnect]"
  "uuid_src w_connected = (\<lambda>i. ''id-'' @ replicate i CHR ''x'')"
  "uuid_idx w_connected = 0"
  "time_src w_connected = (\<lambda>i. 1000 + i)"
  "time_idx w_connected = 0"
  "json_text w_connected = render_json"
  "toISOString w_connected = digits"
  by (simp_all add: w_connected_eq w0_def)

lemma digits_1000: "digits 1000 = ''1000''" "digits 1001 = ''1001''"
  by code_simp+

lemma message_json_world [simp]:
  "message_json (w\<lparr>uuid_idx := u, time_idx := t\<rparr>) ev payload = message_json w ev payload"
  by (simp add: message_json_def)

lemma list2_nth: "length xs = 2 \<Longrightarrow> xs = [xs ! 0, xs ! 1]"
  by (cases xs; cases "tl xs") auto

lemma first_error_single [simp]: "first_error [x] = x"
  by (cases x) simp_all

lemma stringify_error_message [simp]:
  "stringify_error (message_json w ev payload) = stringify_error payload"
  by (simp add: message_json_def split: option.splits)

lemma JSON_stringify_message:
  "JSON_stringify w (message_json w' ev payload) =
     (case stringify_error payload of
        Some e \<Rightarrow> Inl e
      | None \<Rightarrow> Inr (json_text w (message_json w' ev payload)))"
  by (simp add: JSON_stringify_def)

lemma publish_connected_eq:
  assumes "p_producer p \<noteq> None" and "p_isConnected p"
  shows "BaseProducer_publish p topic et payload key options w =
     (let w1 = w\<lparr>uuid_idx := Suc (uuid_idx w), time_idx := Suc (time_idx w)\<rparr> in
      case stringify_error payload of
        Some e \<Rightarrow> (Inl e, log Err ''Failed to publish message'' w1)
      | None \<Rightarrow>
          (let call = ProducerSend
                 \<lparr>pr_topic = topic, pr_compression = GZIP,
                  pr_messages =
                    [\<lparr>m_key = key,
                      m_value = json_text w
                        (message_json w
                           \<lparr>eventId = uuid_src w (uuid_idx w), eventType = et,
                            timestamp = time_src w (time_idx w), version = ''1.0'',
                            correlationId = opt_correlationId options, causationId = None,
                            source = p_serviceName p\<rparr> payload),
                      m_headers =
                        [''event-type'' \<mapsto> et,
                         ''event-version'' \<mapsto> p_eventVersion p,
                         ''source-service'' \<mapsto> p_serviceName p,
                         ''correlation-id'' \<mapsto> or_empty (opt_correlationId options)]
                        ++ opt_headers options\<rparr>]\<rparr>;
               w2 = w1\<lparr>calls := calls w @ [call]\<rparr>
           in case respond w (calls w) call of
                Inr result \<Rightarrow> (Inr (Some result), log Debug ''Message published'' w2)
              | Inl e \<Rightarrow> (Inl e, log Err ''Failed to publish message'' w2)))"
  using assms
  by (simp add: BaseProducer_publish_def createBaseEvent_eq invoke_def Let_def
        JSON_stringify_message split: sum.splits option.splits)

lemma batchMessage_eq:
  "batchMessage p options msg w =
     (case stringify_error (bm_payload msg) of
        Some e \<Rightarrow> Inl e
      | None \<Rightarrow>
          Inr \<lparr>m_key = bm_key msg,
               m_value = json_text w
                 (message_json w
                    \<lparr>eventId = uuid_src w (uuid_idx w), eventType = bm_eventType msg,
                     timestamp = time_src w (time_idx w), version = ''1.0'',
                     correlationId = opt_correlationId options, causationId = None,
                     source = p_serviceName p\<rparr> (bm_payload msg)),
               m_headers =
                 [''event-type'' \<mapsto> bm_eventType msg,
                  ''event-version'' \<mapsto> p_eventVersion p,
                  ''source-service'' \<mapsto> p_serviceName p]\<rparr>,
      w\<lparr>uuid_idx := Suc (uuid_idx w), time_idx := Suc (time_idx w)\<rparr>)"
  by (simp add: batchMessage_def createBaseEvent_eq JSON_stringify_message split: option.splits)

lemma map_world_batch_frame:
  "calls (snd (map_world (batchMessage p options) messages w)) = calls w \<and>
   respond (snd (map_world (batchMessage p options) messages w)) = respond w"
proof (induction messages arbitrary: w)
  case Nil
  show ?case by simp
next
  case (Cons m ms)
  show ?case
  proof (cases "stringify_error (bm_payload m)")
    case None
    with Cons.IH [of "w\<lparr>uuid_idx := Suc (uuid_idx w), time_idx := Suc (time_idx w)\<rparr>"]
    show ?thesis
      by (auto simp add: batchMessage_eq split: sum.splits prod.splits)
  next
    case (Some e')
    then show ?thesis by (simp add: batchMessage_eq)
  qed
qed

lemma map_world_batch_error:
  "fst (map_world (batchMessage p options) messages w) = Inl e \<longleftrightarrow>
   first_error (map (\<lambda>m. stringify_error (bm_payload m)) messages) = Some e"
proof (induction messages arbitrary: w)
  case Nil
  show ?case by simp
next
  case (Cons m ms)
  show ?case
  proof (cases "stringify_error (bm_payload m)")
    case None
    with Cons.IH [of "w\<lparr>uuid_idx := Suc (uuid_idx w), time_idx := Suc (time_idx w)\<rparr>"]
    show ?thesis
      by (auto simp add: batchMessage_eq split: sum.splits prod.splits)
  next
    case (Some e')
    then show ?thesis by (simp add: batchMessage_eq)
  qed
qed

lemma map_world_batch_ok:
  assumes "\<forall>m\<in>set messages. stringify_error (bm_payload m) = None"
  shows "\<exists>msgs. fst (map_world (batchMessage p options) messages w) = Inr msgs \<and>
           length msgs = length messages \<and>
           map m_key msgs = map bm_key messages \<and>
           (\<forall>i<length messages.
              msgs ! i =
                \<lparr>m_key = bm_key (messages ! i),
                 m_value = json_text w
                   (message_json w
                      \<lparr>eventId = uuid_src w (uuid_idx w + i),
                       eventType = bm_eventType (messages ! i),
                       timestamp = time_src w (time_idx w + i), version = ''1.0'',
                       correlationId = opt_correlationId options, causationId = None,
                       source = p_serviceName p\<rparr> (bm_payload (messages ! i))),
                 m_headers =
                   [''event-type'' \<mapsto> bm_eventType (messages ! i),
                    ''event-version'' \<mapsto> p_eventVersion p,
                    ''source-service'' \<mapsto> p_serviceName p]\<rparr>)"
  using assms
proof (induction messages arbitrary: w)
  case Nil
  show ?case by simp
next
  case (Cons m ms)
  let ?w1 = "w\<lparr>uuid_idx := Suc (uuid_idx w), time_idx := Suc (time_idx w)\<rparr>"
  from Cons.prems have ok: "stringify_error (bm_payload m) = None"
    and rest: "\<forall>m\<in>set ms. stringify_error (bm_payload m) = None"
    by simp_all
  have w1: "uuid_src ?w1 = uuid_src w" "uuid_idx ?w1 = Suc (uuid_idx w)"
    "time_src ?w1 = time_src w" "time_idx ?w1 = Suc (time_idx w)"
    "json_text ?w1 = json_text w" "message_json ?w1 = message_json w"
    by (simp_all add: fun_eq_iff)
  from Cons.IH [OF rest, of ?w1] have
    "\<exists>msgs. fst (map_world (batchMessage p options) ms ?w1) = Inr msgs \<and>
      length msgs = length ms \<and> map m_key msgs = map bm_key ms \<and>
      (\<forall>i<length ms.
         msgs ! i =
           \<lparr>m_key = bm_key (ms ! i),
            m_value = json_text w
              (message_json w
                 \<lparr>eventId = uuid_src w (Suc (uuid_idx w + i)),
                  eventType = bm_eventType (ms ! i),
                  timestamp = time_src w (Suc (time_idx w + i)), version = ''1.0'',
                  correlationId = opt_correlationId options, causationId = None,
                  source = p_serviceName p\<rparr> (bm_payload (ms ! i))),
            m_headers =
              [''event-type'' \<mapsto> bm_eventType (ms ! i),
               ''event-version'' \<mapsto> p_eventVersion p,
               ''source-service'' \<mapsto> p_serviceName p]\<rparr>)"
    by (simp only: w1 add_Suc)
  then obtain msgs where
    msgs: "fst (map_world (batchMessage p options) ms ?w1) = Inr msgs"
      "length msgs = length ms" "map m_key msgs = map bm_key ms"
      "\<forall>i<length ms.
         msgs ! i =
           \<lparr>m_key = bm_key (ms ! i),
            m_value = json_text w
              (message_json w
                 \<lparr>eventId = uuid_src w (Suc (uuid_idx w + i)),
                  eventType = bm_eventType (ms ! i),
                  timestamp = time_src w (Suc (time_idx w + i)), version = ''1.0'',
                  correlationId = opt_correlationId options, causationId = None,
                  source = p_serviceName p\<rparr> (bm_payload (ms ! i))),
            m_headers =
              [''event-type'' \<mapsto> bm_eventType (ms ! i),
               ''event-version'' \<mapsto> p_eventVersion p,
               ''source-service'' \<mapsto> p_serviceName p]\<rparr>"
    by blast
  let ?m0 =
    "\<lparr>m_key = bm_key m,
      m_value = json_text w
        (message_json w
           \<lparr>eventId = uuid_src w (uuid_idx w), eventType = bm_eventType m,
            timestamp = time_src w (time_idx w), version = ''1.0'',
            correlationId = opt_correlationId options, causationId = None,
            source = p_serviceName p\<rparr> (bm_payload m)),
      m_headers =
        [''event-type'' \<mapsto> bm_eventType m,
         ''event-version'' \<mapsto> p_eventVersion p,
         ''source-service'' \<mapsto> p_serviceName p]\<rparr>"
  obtain w2 where "map_world (batchMessage p options) ms ?w1 = (Inr msgs, w2)"
    using msgs(1) by (cases "map_world (batchMessage p options) ms ?w1") simp
  with ok have "fst (map_world (batchMessage p options) (m # ms) w) = Inr (?m0 # msgs)"
    by (simp add: batchMessage_eq)
  moreover have "length (?m0 # msgs) = length (m # ms)"
    using msgs(2) by simp
  moreover have "map m_key (?m0 # msgs) = map bm_key (m # ms)"
    using msgs(3) by simp
  moreover have "\<forall>i<length (m # ms).
      (?m0 # msgs) ! i =
        \<lparr>m_key = bm_key ((m # ms) ! i),
         m_value = json_text w
           (message_json w
              \<lparr>eventId = uuid_src w (uuid_idx w + i),
               eventType = bm_eventType ((m # ms) ! i),
               timestamp = time_src w (time_idx w + i), version = ''1.0'',
               correlationId = opt_correlationId options, causationId = None,
               source = p_serviceName p\<rparr> (bm_payload ((m # ms) ! i))),
         m_headers =
           [''event-type'' \<mapsto> bm_eventType ((m # ms) ! i),
            ''event-version'' \<mapsto> p_eventVersion p,
            ''source-service'' \<mapsto> p_serviceName p]\<rparr>"
  proof (intro allI impI)
    fix i assume "i < length (m # ms)"
    then show "(?m0 # msgs) ! i =
        \<lparr>m_key = bm_key ((m # ms) ! i),
         m_value = json_text w
           (message_json w
              \<lparr>eventId = uuid_src w (uuid_idx w + i),
               eventType = bm_eventType ((m # ms) ! i),
               timestamp = time_src w (time_idx w + i), version = ''1.0'',
               correlationId = opt_correlationId options, causationId = None,
               source = p_serviceName p\<rparr> (bm_payload ((m # ms) ! i))),
         m_headers =
           [''event-type'' \<mapsto> bm_eventType ((m # ms) ! i),
            ''event-version'' \<mapsto> p_eventVersion p,
            ''source-service'' \<mapsto> p_serviceName p]\<rparr>"
      using msgs(4) by (cases i) simp_all
  qed
  ultimately show ?case by blast
qed

lemma publishBatch_connected_ok:
  assumes "p_producer p \<noteq> None" and "p_isConnected p"
    and "fst (map_world (batchMessage p options) messages w) = Inr msgs"
  shows "calls (snd (BaseProducer_publishBatch p topic messages options w)) =
           calls w @
           [ProducerSend \<lparr>pr_topic = topic, pr_compression = GZIP, pr_messages = msgs\<rparr>]"
proof -
  obtain w1 where mw: "map_world (batchMessage p options) messages w = (Inr msgs, w1)"
    using assms(3) by (cases "map_world (batchMessage p options) messages w") simp
  from map_world_batch_frame [of p options messages w] mw have "calls w1 = calls w"
    by simp
  with assms(1,2) mw show ?thesis
    by (simp add: BaseProducer_publishBatch_def invoke_def log_def Let_def split: sum.splits)
qed

lemma publishBatch_connected_error:
  assumes "p_producer p \<noteq> None" and "p_isConnected p"
    and "fst (map_world (batchMessage p options) messages w) = Inl e"
  shows "fst (BaseProducer_publishBatch p topic messages options w) = Inl e \<and>
         calls (snd (BaseProducer_publishBatch p topic messages options w)) = calls w"
proof -
  obtain w1 where mw: "map_world (batchMessage p options) messages w = (Inl e, w1)"
    using assms(3) by (cases "map_world (batchMessage p options) messages w") simp
  from map_world_batch_frame [of p options messages w] mw have "calls w1 = calls w"
    by simp
  with assms(1,2) mw show ?thesis
    by (simp add: BaseProducer_publishBatch_def log_def)
qed

lemma c_running_simps:
  "c_consumer c_running \<noteq> None"
  "c_isRunning c_running"
  "c_isConnected c_running"
  "c_topics c_running = [''test-topic'']"
  by (simp_all add: c_running_def BaseConsumer_start_def BaseConsumer_connect_def
        BaseConsumer_new_def setHandler_def invoke_def log_def w0_def ccfg0_def)

lemma w_running_calls:
  "calls w_running =
     [ConsumerConnect, ConsumerSubscribe [''test-topic''] False, ConsumerRun]"
  by (simp add: w_running_def BaseConsumer_start_def BaseConsumer_connect_def
        BaseConsumer_new_def setHandler_def invoke_def log_def w0_def ccfg0_def)

lemma pause_state: "fst (snd (BaseConsumer_pause c w)) = c"
  by (simp add: BaseConsumer_pause_def invoke_def split: sum.splits)

lemma resume_state: "fst (snd (BaseConsumer_resume c w)) = c"
  by (simp add: BaseConsumer_resume_def invoke_def split: sum.splits)

lemma pause_calls:
  "c_consumer c \<noteq> None \<Longrightarrow> c_isRunning c \<Longrightarrow>
   calls (snd (snd (BaseConsumer_pause c w))) = calls w @ [ConsumerPause (c_topics c)]"
  by (simp add: BaseConsumer_pause_def invoke_def log_def split: sum.splits)

lemma resume_calls:
  "c_consumer c \<noteq> None \<Longrightarrow> c_isRunning c \<Longrightarrow>
   calls (snd (snd (BaseConsumer_resume c w))) = calls w @ [ConsumerResume (c_topics c)]"
  by (simp add: BaseConsumer_resume_def invoke_def log_def split: sum.splits)


section \<open>Envelope construction\<close>

text \<open>
  C9.  With a uuid source that yields non-empty, pairwise distinct identifiers and a clock
  that never runs backwards, \<open>createBaseEvent\<close> returns, for every event type and source,
  an envelope whose \<open>eventId\<close> is non-empty and differs from the \<open>eventId\<close> of any later
  call in the same run, whose \<open>timestamp\<close> is no earlier than a clock reading taken just
  before the call, whose \<open>version\<close> is the fixed string \<open>1.0\<close>, and whose
  \<open>correlationId\<close> and \<open>causationId\<close> are unset.
\<close>

theorem createBaseEvent_fresh:
  assumes "\<forall>i. uuid_src w i \<noteq> []" and "inj (uuid_src w)" and "mono (time_src w)"
    and "uuid_src w' = uuid_src w"
    and "uuid_idx (snd (createBaseEvent et src w)) \<le> uuid_idx w'"
  shows "eventId (fst (createBaseEvent et src w)) \<noteq> [] \<and>
         eventId (fst (createBaseEvent et' src' w')) \<noteq> eventId (fst (createBaseEvent et src w)) \<and>
         fst (Date_now w) \<le> timestamp (fst (createBaseEvent et src (snd (Date_now w)))) \<and>
         version (fst (createBaseEvent et src w)) = ''1.0'' \<and>
         correlationId (fst (createBaseEvent et src w)) = None \<and>
         causationId (fst (createBaseEvent et src w)) = None"
proof -
  have nonempty: "eventId (fst (createBaseEvent et src w)) \<noteq> []"
    using assms(1) by (simp add: createBaseEvent_eq)
  have "uuid_idx w' \<noteq> uuid_idx w"
    using assms(5) by (simp add: createBaseEvent_eq)
  then have "uuid_src w (uuid_idx w') \<noteq> uuid_src w (uuid_idx w)"
    using assms(2) by (simp add: inj_eq)
  then have fresh:
    "eventId (fst (createBaseEvent et' src' w')) \<noteq> eventId (fst (createBaseEvent et src w))"
    using assms(4) by (simp add: createBaseEvent_eq)
  have "time_src w (time_idx w) \<le> time_src w (Suc (time_idx w))"
    using assms(3) by (simp add: monoD)
  then have later:
    "fst (Date_now w) \<le> timestamp (fst (createBaseEvent et src (snd (Date_now w))))"
    by (simp add: createBaseEvent_eq Date_now_def)
  from nonempty fresh later show ?thesis
    by (simp add: createBaseEvent_eq)
qed

theorem createBaseEvent_fresh_witness:
  "(\<forall>i. uuid_src w0 i \<noteq> []) \<and> inj (uuid_src w0) \<and> mono (time_src w0) \<and>
   eventId (fst (createBaseEvent ''UserCreated'' ''test-service'' w0)) = ''id-'' \<and>
   eventId (fst (createBaseEvent ''UserUpdated'' ''test-service''
                  (snd (createBaseEvent ''UserCreated'' ''test-service'' w0)))) = ''id-x'' \<and>
   eventId (fst (createBaseEvent ''UserCreated'' ''test-service'' w0)) \<noteq> [] \<and>
   eventId (fst (createBaseEvent ''UserUpdated'' ''test-service''
                  (snd (createBaseEvent ''UserCreated'' ''test-service'' w0))))
     \<noteq> eventId (fst (createBaseEvent ''UserCreated'' ''test-service'' w0)) \<and>
   fst (Date_now w0) = 1000 \<and>
   fst (Date_now w0)
     \<le> timestamp (fst (createBaseEvent ''UserCreated'' ''test-service'' (snd (Date_now w0)))) \<and>
   version (fst (createBaseEvent ''UserCreated'' ''test-service'' w0)) = ''1.0'' \<and>
   correlationId (fst (createBaseEvent ''UserCreated'' ''test-service'' w0)) = None \<and>
   causationId (fst (createBaseEvent ''UserCreated'' ''test-service'' w0)) = None"
proof -
  let ?w' = "snd (createBaseEvent ''UserCreated'' ''test-service'' w0)"
  have same: "uuid_src ?w' = uuid_src w0"
    by (simp add: createBaseEvent_eq)
  have idx: "uuid_idx (snd (createBaseEvent ''UserCreated'' ''test-service'' w0)) \<le> uuid_idx ?w'"
    by simp
  have vals:
    "eventId (fst (createBaseEvent ''UserCreated'' ''test-service'' w0)) = ''id-''"
    "eventId (fst (createBaseEvent ''UserUpdated'' ''test-service'' ?w')) = ''id-x''"
    "fst (Date_now w0) = 1000"
    by (simp_all add: createBaseEvent_eq w0_def Date_now_def)
  from createBaseEvent_fresh [OF w0_uuid_nonempty w0_uuid_inj w0_time_mono same idx,
      of "''UserUpdated''" "''test-service''"] vals
    w0_uuid_nonempty w0_uuid_inj w0_time_mono
  show ?thesis by simp
qed

text \<open>
  C3, as the code has it.  \<open>createBaseEvent\<close> makes no run-time check of the event type
  and has no failing branch: for every string, member of the enumeration or not, it
  returns an envelope that carries the string unchanged.  Only the compile-time type
  \<open>EventType\<close> keeps other strings out.
\<close>

theorem createBaseEvent_any_string:
  "fst (createBaseEvent et src w) =
     \<lparr>eventId = uuid_src w (uuid_idx w), eventType = et, timestamp = time_src w (time_idx w),
      version = ''1.0'', correlationId = None, causationId = None, source = src\<rparr>"
  by (simp add: createBaseEvent_eq)

text \<open>
  C3 as stated fails: the string \<open>NotAnEventType\<close> is outside the enumeration, and the
  call returns an envelope with that event type.
\<close>

theorem createBaseEvent_unknown_type_counterexample:
  "\<not> is_EventType ''NotAnEventType'' \<and>
   fst (createBaseEvent ''NotAnEventType'' ''test-service'' w0) =
     \<lparr>eventId = ''id-'', eventType = ''NotAnEventType'', timestamp = 1000,
      version = ''1.0'', correlationId = None, causationId = None, source = ''test-service''\<rparr>"
  by (simp add: createBaseEvent_eq w0_def is_EventType_def TransactionEvents_def FraudEvents_def
        UserEvents_def SecurityEvents_def NotificationEvents_def AMLEvents_def)

section \<open>The producer\<close>

text \<open>
  C10.  \<open>connect()\<close> on a producer that is already connected returns at once: the
  producer object and the world are unchanged, so no transport producer is created and
  the transport's connect primitive is not called.
\<close>

theorem connect_when_connected:
  "p_isConnected p \<Longrightarrow> BaseProducer_connect p w = (Inr (), p, w)"
  by (simp add: BaseProducer_connect_def)

theorem connect_when_connected_witness:
  "p_isConnected p_connected \<and>
   BaseProducer_connect p_connected w_connected = (Inr (), p_connected, w_connected)"
  using connect_when_connected [of p_connected w_connected] p_connected_simps(1) by simp

text \<open>
  C2.  \<open>publish\<close> on a producer that is not connected (no transport producer, or the
  connected flag down) resolves to \<open>null\<close> for every topic, event type, payload, key
  and options; it does not reject, and it invokes no transport primitive.
\<close>

theorem publish_not_connected:
  assumes "p_producer p = None \<or> \<not> p_isConnected p"
  shows "fst (BaseProducer_publish p topic eventType' payload key options w) = Inr None \<and>
         calls (snd (BaseProducer_publish p topic eventType' payload key options w)) = calls w"
  using assms by (auto simp add: BaseProducer_publish_def log_def)

theorem publish_not_connected_witness:
  "\<not> p_isConnected (BaseProducer_new cfg0) \<and>
   fst (BaseProducer_publish (BaseProducer_new cfg0) ''test-topic'' ''UserCreated''
          (JObject [(''id'', JString ''123'')]) ''user-123'' None w0) = Inr None \<and>
   calls (snd (BaseProducer_publish (BaseProducer_new cfg0) ''test-topic'' ''UserCreated''
          (JObject [(''id'', JString ''123'')]) ''user-123'' None w0)) = []"
proof -
  have nc: "\<not> p_isConnected (BaseProducer_new cfg0)"
    by (simp add: BaseProducer_new_def)
  have c0: "calls w0 = []"
    by (simp add: w0_def)
  from nc have "p_producer (BaseProducer_new cfg0) = None \<or> \<not> p_isConnected (BaseProducer_new cfg0)"
    by simp
  from publish_not_connected [OF this, of "''test-topic''" "''UserCreated''"
      "JObject [(''id'', JString ''123'')]" "''user-123''" None w0] nc c0
  show ?thesis by simp
qed

text \<open>
  C5, as the code has it.  On a connected producer, for every topic, event type, key and
  options:
  \<^item> when \<open>JSON.stringify\<close> accepts the payload, \<open>publish\<close> invokes exactly one
    transport primitive, a send of one record with a single message whose key is the
    caller's key and whose headers are the four standard headers with the caller's
    \<open>options.headers\<close> spread over them last;
  \<^item> when \<open>JSON.stringify\<close> throws on the payload, \<open>publish\<close> rejects with that error
    and invokes no transport primitive;
  \<^item> in the headers, \<open>event-type\<close> is the given event type and \<open>source-service\<close> is the
    configured service name whenever \<open>options.headers\<close> does not itself contain that
    name; a name that \<open>options.headers\<close> contains carries the caller's value.
\<close>

theorem publish_connected_sends_once:
  assumes "p_producer p \<noteq> None" and "p_isConnected p"
  shows "(stringify_error payload = None \<longrightarrow>
            calls (snd (BaseProducer_publish p topic et payload key options w)) =
              calls w @
              [ProducerSend
                 \<lparr>pr_topic = topic, pr_compression = GZIP,
                  pr_messages =
                    [\<lparr>m_key = key,
                      m_value = json_text w
                        (message_json w
                           \<lparr>eventId = uuid_src w (uuid_idx w), eventType = et,
                            timestamp = time_src w (time_idx w), version = ''1.0'',
                            correlationId = opt_correlationId options, causationId = None,
                            source = p_serviceName p\<rparr> payload),
                      m_headers =
                        [''event-type'' \<mapsto> et,
                         ''event-version'' \<mapsto> p_eventVersion p,
                         ''source-service'' \<mapsto> p_serviceName p,
                         ''correlation-id'' \<mapsto> or_empty (opt_correlationId options)]
                        ++ opt_headers options\<rparr>]\<rparr>]) \<and>
         (\<forall>e. stringify_error payload = Some e \<longrightarrow>
            fst (BaseProducer_publish p topic et payload key options w) = Inl e \<and>
            calls (snd (BaseProducer_publish p topic et payload key options w)) = calls w) \<and>
         (opt_headers options ''event-type'' = None \<longrightarrow>
            ([''event-type'' \<mapsto> et,
              ''event-version'' \<mapsto> p_eventVersion p,
              ''source-service'' \<mapsto> p_serviceName p,
              ''correlation-id'' \<mapsto> or_empty (opt_correlationId options)]
             ++ opt_headers options) ''event-type'' = Some et) \<and>
         (opt_headers options ''source-service'' = None \<longrightarrow>
            ([''event-type'' \<mapsto> et,
              ''event-version'' \<mapsto> p_eventVersion p,
              ''source-service'' \<mapsto> p_serviceName p,
              ''correlation-id'' \<mapsto> or_empty (opt_correlationId options)]
             ++ opt_headers options) ''source-service'' = Some (p_serviceName p)) \<and>
         (\<forall>name v. opt_headers options name = Some v \<longrightarrow>
            ([''event-type'' \<mapsto> et,
              ''event-version'' \<mapsto> p_eventVersion p,
              ''source-service'' \<mapsto> p_serviceName p,
              ''correlation-id'' \<mapsto> or_empty (opt_correlationId options)]
             ++ opt_headers options) name = Some v)"
  apply (intro conjI impI allI)
  subgoal using assms by (simp add: publish_connected_eq Let_def log_def split: sum.splits)
  subgoal using assms by (simp add: publish_connected_eq Let_def log_def)
  subgoal using assms by (simp add: publish_connected_eq Let_def log_def)
  subgoal by (simp add: map_add_def)
  subgoal by (simp add: map_add_def)
  subgoal by (simp add: map_add_def)
  done

theorem publish_connected_sends_once_witness:
  "p_producer p_connected \<noteq> None \<and> p_isConnected p_connected \<and>
   stringify_error (JObject [(''id'', JString ''u1'')]) = None \<and>
   sends (calls (snd (BaseProducer_publish p_connected ''banking.users.events'' ''UserCreated''
        (JObject [(''id'', JString ''u1'')]) ''u1'' None w_connected))) =
     [\<lparr>pr_topic = ''banking.users.events'', pr_compression = GZIP,
       pr_messages =
         [\<lparr>m_key = ''u1'',
           m_value = render_json
             (JObject
                [(''eventId'', JString ''id-''), (''eventType'', JString ''UserCreated''),
                 (''timestamp'', JString ''1000''), (''version'', JString ''1.0''),
                 (''source'', JString ''test-service''),
                 (''payload'', JObject [(''id'', JString ''u1'')])]),
           m_headers =
             [''event-type'' \<mapsto> ''UserCreated'',
              ''event-version'' \<mapsto> ''1.0'',
              ''source-service'' \<mapsto> ''test-service'',
              ''correlation-id'' \<mapsto> []]\<rparr>]\<rparr>] \<and>
   stringify_error (JObject [(''amount'', JBigInt 10)])
     = Some (TypeError ''Do not know how to serialize a BigInt'') \<and>
   fst (BaseProducer_publish p_connected ''banking.users.events'' ''UserCreated''
        (JObject [(''amount'', JBigInt 10)]) ''u1'' None w_connected)
     = Inl (TypeError ''Do not know how to serialize a BigInt'') \<and>
   calls (snd (BaseProducer_publish p_connected ''banking.users.events'' ''UserCreated''
        (JObject [(''amount'', JBigInt 10)]) ''u1'' None w_connected))
     = [CreateProducer producer_options, ProducerConnect]"
proof -
  have a: "p_producer p_connected \<noteq> None" and b: "p_isConnected p_connected"
    by (simp_all add: p_connected_simps)
  have ok: "stringify_error (JObject [(''id'', JString ''u1'')]) = None"
    and bad: "stringify_error (JObject [(''amount'', JBigInt 10)])
               = Some (TypeError ''Do not know how to serialize a BigInt'')"
    by simp_all
  from publish_connected_sends_once [OF a b, of "JObject [(''id'', JString ''u1'')]"
      "''banking.users.events''" "''UserCreated''" "''u1''" None w_connected]
    publish_connected_sends_once [OF a b, of "JObject [(''amount'', JBigInt 10)]"
      "''banking.users.events''" "''UserCreated''" "''u1''" None w_connected]
  show ?thesis
    by (simp add: a b w_connected_fields p_connected_simps sends_append opt_headers_def
          opt_correlationId_def or_empty_def message_json_def digits_1000)
qed

text \<open>
  C5 as stated fails twice over.  A call whose options carry a header named
  \<open>event-type\<close> goes out with the caller's value, not with the event type that was
  published; and a call whose payload holds a \<open>BigInt\<close> rejects with the \<open>TypeError\<close>
  of \<open>JSON.stringify\<close> and sends nothing.
\<close>

theorem publish_header_override_counterexample:
  "p_producer p_connected \<noteq> None \<and> p_isConnected p_connected \<and>
   map (map (headers_at [''event-type'']) \<circ> pr_messages)
     (sends (calls (snd (BaseProducer_publish p_connected ''banking.users.events'' ''UserCreated''
        (JObject [(''id'', JString ''u1'')]) ''u1'' (Some spoofing) w_connected)))) =
     [[[Some ''Spoofed'']]] \<and>
   fst (BaseProducer_publish p_connected ''banking.users.events'' ''UserCreated''
        (JObject [(''amount'', JBigInt 10)]) ''u1'' None w_connected)
     = Inl (TypeError ''Do not know how to serialize a BigInt'') \<and>
   sends (calls (snd (BaseProducer_publish p_connected ''banking.users.events'' ''UserCreated''
        (JObject [(''amount'', JBigInt 10)]) ''u1'' None w_connected))) = []"
  by (simp add: publish_connected_eq p_connected_simps w_connected_eq Let_def log_def w0_def
        sends_append headers_at_def spoofing_def opt_headers_def opt_correlationId_def
        or_empty_def)

text \<open>
  C7, as the code has it.  On a connected producer, for every list of \<open>N\<close> messages:
  \<^item> when \<open>JSON.stringify\<close> accepts every payload, \<open>publishBatch\<close> invokes exactly one
    transport primitive, a send of one record that holds one message for each input, in
    the caller's order: the \<open>i\<close>-th message has the key of the \<open>i\<close>-th input and, as its
    value, the serialised envelope built for the \<open>i\<close>-th input (its event type and its
    payload, with the \<open>i\<close>-th identifier and clock reading drawn by the call);
  \<^item> when \<open>JSON.stringify\<close> throws on a payload, \<open>publishBatch\<close> rejects with the
    error of the first such payload and invokes no transport primitive.
\<close>

theorem publishBatch_one_send:
  assumes "p_producer p \<noteq> None" and "p_isConnected p"
  shows "((\<forall>m\<in>set messages. stringify_error (bm_payload m) = None) \<longrightarrow>
            (\<exists>msgs.
               calls (snd (BaseProducer_publishBatch p topic messages options w)) =
                 calls w @
                 [ProducerSend
                    \<lparr>pr_topic = topic, pr_compression = GZIP, pr_messages = msgs\<rparr>] \<and>
               length msgs = length messages \<and>
               map m_key msgs = map bm_key messages \<and>
               (\<forall>i<length messages.
                  msgs ! i =
                    \<lparr>m_key = bm_key (messages ! i),
                     m_value = json_text w
                       (message_json w
                          \<lparr>eventId = uuid_src w (uuid_idx w + i),
                           eventType = bm_eventType (messages ! i),
                           timestamp = time_src w (time_idx w + i), version = ''1.0'',
                           correlationId = opt_correlationId options, causationId = None,
                           source = p_serviceName p\<rparr> (bm_payload (messages ! i))),
                     m_headers =
                       [''event-type'' \<mapsto> bm_eventType (messages ! i),
                        ''event-version'' \<mapsto> p_eventVersion p,
                        ''source-service'' \<mapsto> p_serviceName p]\<rparr>))) \<and>
         (\<forall>e. first_error (map (\<lambda>m. stringify_error (bm_payload m)) messages) = Some e \<longrightarrow>
            fst (BaseProducer_publishBatch p topic messages options w) = Inl e \<and>
            calls (snd (BaseProducer_publishBatch p topic messages options w)) = calls w)"
proof (intro conjI impI allI)
  assume "\<forall>m\<in>set messages. stringify_error (bm_payload m) = None"
  from map_world_batch_ok [OF this, of p options w] obtain msgs where
    msgs: "fst (map_world (batchMessage p options) messages w) = Inr msgs"
    and rest: "length msgs = length messages \<and>
      map m_key msgs = map bm_key messages \<and>
      (\<forall>i<length messages.
         msgs ! i =
           \<lparr>m_key = bm_key (messages ! i),
            m_value = json_text w
              (message_json w
                 \<lparr>eventId = uuid_src w (uuid_idx w + i),
                  eventType = bm_eventType (messages ! i),
                  timestamp = time_src w (time_idx w + i), version = ''1.0'',
                  correlationId = opt_correlationId options, causationId = None,
                  source = p_serviceName p\<rparr> (bm_payload (messages ! i))),
            m_headers =
              [''event-type'' \<mapsto> bm_eventType (messages ! i),
               ''event-version'' \<mapsto> p_eventVersion p,
               ''source-service'' \<mapsto> p_serviceName p]\<rparr>)"
    by blast
  from publishBatch_connected_ok [OF assms msgs, of topic] rest
  show "\<exists>msgs.
      calls (snd (BaseProducer_publishBatch p topic messages options w)) =
        calls w @
        [ProducerSend \<lparr>pr_topic = topic, pr_compression = GZIP, pr_messages = msgs\<rparr>] \<and>
      length msgs = length messages \<and>
      map m_key msgs = map bm_key messages \<and>
      (\<forall>i<length messages.
         msgs ! i =
           \<lparr>m_key = bm_key (messages ! i),
            m_value = json_text w
              (message_json w
                 \<lparr>eventId = uuid_src w (uuid_idx w + i),
                  eventType = bm_eventType (messages ! i),
                  timestamp = time_src w (time_idx w + i), version = ''1.0'',
                  correlationId = opt_correlationId options, causationId = None,
                  source = p_serviceName p\<rparr> (bm_payload (messages ! i))),
            m_headers =
              [''event-type'' \<mapsto> bm_eventType (messages ! i),
               ''event-version'' \<mapsto> p_eventVersion p,
               ''source-service'' \<mapsto> p_serviceName p]\<rparr>)"
    by blast
next
  fix e
  assume "first_error (map (\<lambda>m. stringify_error (bm_payload m)) messages) = Some e"
  then have failed: "fst (map_world (batchMessage p options) messages w) = Inl e"
    by (simp add: map_world_batch_error)
  from publishBatch_connected_error [OF assms failed, of topic]
  show "fst (BaseProducer_publishBatch p topic messages options w) = Inl e"
    and "calls (snd (BaseProducer_publishBatch p topic messages options w)) = calls w"
    by simp_all
qed

theorem publishBatch_one_send_witness:
  "p_producer p_connected \<noteq> None \<and> p_isConnected p_connected \<and>
   map (stringify_error \<circ> bm_payload) batch0 = [None, None] \<and>
   sends (calls (snd (BaseProducer_publishBatch p_connected ''test-topic'' batch0 None w_connected))) =
     [\<lparr>pr_topic = ''test-topic'', pr_compression = GZIP,
       pr_messages =
         [\<lparr>m_key = ''1'',
           m_value = render_json
             (JObject
                [(''eventId'', JString ''id-''), (''eventType'', JString ''UserCreated''),
                 (''timestamp'', JString ''1000''), (''version'', JString ''1.0''),
                 (''source'', JString ''test-service''),
                 (''payload'', JObject [(''id'', JString ''1'')])]),
           m_headers =
             [''event-type'' \<mapsto> ''UserCreated'',
              ''event-version'' \<mapsto> ''1.0'',
              ''source-service'' \<mapsto> ''test-service'']\<rparr>,
          \<lparr>m_key = ''2'',
           m_value = render_json
             (JObject
                [(''eventId'', JString ''id-x''), (''eventType'', JString ''UserUpdated''),
                 (''timestamp'', JString ''1001''), (''version'', JString ''1.0''),
                 (''source'', JString ''test-service''),
                 (''payload'', JObject [(''id'', JString ''2'')])]),
           m_headers =
             [''event-type'' \<mapsto> ''UserUpdated'',
              ''event-version'' \<mapsto> ''1.0'',
              ''source-service'' \<mapsto> ''test-service'']\<rparr>]\<rparr>] \<and>
   map bm_key batch0 = [''1'', ''2''] \<and>
   map (stringify_error \<circ> bm_payload) batch_bigint =
     [None, Some (TypeError ''Do not know how to serialize a BigInt'')] \<and>
   fst (BaseProducer_publishBatch p_connected ''test-topic'' batch_bigint None w_connected)
     = Inl (TypeError ''Do not know how to serialize a BigInt'') \<and>
   calls (snd (BaseProducer_publishBatch p_connected ''test-topic'' batch_bigint None w_connected))
     = [CreateProducer producer_options, ProducerConnect]"
proof -
  have a: "p_producer p_connected \<noteq> None" and b: "p_isConnected p_connected"
    by (simp_all add: p_connected_simps)
  have ok: "\<forall>m\<in>set batch0. stringify_error (bm_payload m) = None"
    by (simp add: batch0_def)
  have bad: "first_error (map (\<lambda>m. stringify_error (bm_payload m)) batch_bigint)
               = Some (TypeError ''Do not know how to serialize a BigInt'')"
    by (simp add: batch_bigint_def)
  note thm0 = publishBatch_one_send [OF a b, of batch0 "''test-topic''" None w_connected]
  note thm1 = publishBatch_one_send [OF a b, of batch_bigint "''test-topic''" None w_connected]
  from thm0 ok obtain msgs where
    sent: "calls (snd (BaseProducer_publishBatch p_connected ''test-topic'' batch0 None w_connected)) =
             calls w_connected @
             [ProducerSend
                \<lparr>pr_topic = ''test-topic'', pr_compression = GZIP, pr_messages = msgs\<rparr>]"
    and len: "length msgs = length batch0"
    and nth: "\<forall>i<length batch0.
       msgs ! i =
         \<lparr>m_key = bm_key (batch0 ! i),
          m_value = json_text w_connected
            (message_json w_connected
               \<lparr>eventId = uuid_src w_connected (uuid_idx w_connected + i),
                eventType = bm_eventType (batch0 ! i),
                timestamp = time_src w_connected (time_idx w_connected + i), version = ''1.0'',
                correlationId = opt_correlationId None, causationId = None,
                source = p_serviceName p_connected\<rparr> (bm_payload (batch0 ! i))),
          m_headers =
            [''event-type'' \<mapsto> bm_eventType (batch0 ! i),
             ''event-version'' \<mapsto> p_eventVersion p_connected,
             ''source-service'' \<mapsto> p_serviceName p_connected]\<rparr>"
    by blast
  from len have "length msgs = 2"
    by (simp add: batch0_def)
  then have two: "msgs = [msgs ! 0, msgs ! 1]"
    by (rule list2_nth)
  have l2: "length batch0 = 2"
    by (simp add: batch0_def)
  from nth l2 have m0: "msgs ! 0 =
         \<lparr>m_key = ''1'',
           m_value = render_json
             (JObject
                [(''eventId'', JString ''id-''), (''eventType'', JString ''UserCreated''),
                 (''timestamp'', JString ''1000''), (''version'', JString ''1.0''),
                 (''source'', JString ''test-service''),
                 (''payload'', JObject [(''id'', JString ''1'')])]),
           m_headers =
             [''event-type'' \<mapsto> ''UserCreated'',
              ''event-version'' \<mapsto> ''1.0'',
              ''source-service'' \<mapsto> ''test-service'']\<rparr>"
    by (simp add: batch0_def w_connected_fields p_connected_simps opt_correlationId_def
          message_json_def digits_1000)
  from nth l2 have m1: "msgs ! 1 =
          \<lparr>m_key = ''2'',
           m_value = render_json
             (JObject
                [(''eventId'', JString ''id-x''), (''eventType'', JString ''UserUpdated''),
                 (''timestamp'', JString ''1001''), (''version'', JString ''1.0''),
                 (''source'', JString ''test-service''),
                 (''payload'', JObject [(''id'', JString ''2'')])]),
           m_headers =
             [''event-type'' \<mapsto> ''UserUpdated'',
              ''event-version'' \<mapsto> ''1.0'',
              ''source-service'' \<mapsto> ''test-service'']\<rparr>"
    by (simp add: batch0_def w_connected_fields p_connected_simps opt_correlationId_def
          message_json_def digits_1000)
  have sends0: "sends (calls (snd (BaseProducer_publishBatch p_connected ''test-topic'' batch0 None w_connected))) =
      [\<lparr>pr_topic = ''test-topic'', pr_compression = GZIP, pr_messages = [msgs ! 0, msgs ! 1]\<rparr>]"
    using two by (simp add: sent sends_append w_connected_fields)
  from thm1 bad have failed:
    "fst (BaseProducer_publishBatch p_connected ''test-topic'' batch_bigint None w_connected)
       = Inl (TypeError ''Do not know how to serialize a BigInt'')"
    "calls (snd (BaseProducer_publishBatch p_connected ''test-topic'' batch_bigint None w_connected))
       = calls w_connected"
    by simp_all
  show ?thesis
    by (simp only: sends0 m0 m1 failed a b simp_thms)
       (simp add: batch0_def batch_bigint_def w_connected_fields)
qed

text \<open>
  C7 as stated fails for a batch of two messages whose second payload holds a
  \<open>BigInt\<close>: the call rejects with the \<open>TypeError\<close> of \<open>JSON.stringify\<close> and makes no
  send at all.
\<close>

theorem publishBatch_unserialisable_counterexample:
  "p_producer p_connected \<noteq> None \<and> p_isConnected p_connected \<and>
   length batch_bigint = 2 \<and>
   fst (BaseProducer_publishBatch p_connected ''test-topic'' batch_bigint None w_connected)
     = Inl (TypeError ''Do not know how to serialize a BigInt'') \<and>
   sends (calls (snd (BaseProducer_publishBatch p_connected ''test-topic'' batch_bigint None
     w_connected))) = []"
proof -
  have a: "p_producer p_connected \<noteq> None" and b: "p_isConnected p_connected"
    by (simp_all add: p_connected_simps)
  have "first_error (map (\<lambda>m. stringify_error (bm_payload m)) batch_bigint)
          = Some (TypeError ''Do not know how to serialize a BigInt'')"
    by (simp add: batch_bigint_def)
  then have "fst (map_world (batchMessage p_connected None) batch_bigint w_connected)
          = Inl (TypeError ''Do not know how to serialize a BigInt'')"
    by (simp only: map_world_batch_error)
  from publishBatch_connected_error [OF a b this, of "''test-topic''"] a b
  show ?thesis
    by (simp add: w_connected_fields batch_bigint_def)
qed

text \<open>
  C8 at a failing input.  A batch of two messages published with a correlation id goes
  out with three headers per message: \<open>correlation-id\<close> is missing, and so is anything
  the caller passed in \<open>options.headers\<close>.  The same options on \<open>publish\<close> give all
  four headers.
\<close>

theorem publishBatch_omits_correlation_id:
  "map (map m_headers \<circ> pr_messages)
     (sends (calls (snd (BaseProducer_publishBatch p_connected ''test-topic'' batch0
        (Some correlated) w_connected)))) =
     [[[''event-type'' \<mapsto> ''UserCreated'', ''event-version'' \<mapsto> ''1.0'',
        ''source-service'' \<mapsto> ''test-service''],
       [''event-type'' \<mapsto> ''UserUpdated'', ''event-version'' \<mapsto> ''1.0'',
        ''source-service'' \<mapsto> ''test-service'']]] \<and>
   map (map (headers_at [''event-type'', ''event-version'', ''source-service'',
                         ''correlation-id'']) \<circ> pr_messages)
     (sends (calls (snd (BaseProducer_publishBatch p_connected ''test-topic'' batch0
        (Some correlated) w_connected)))) =
     [[[Some ''UserCreated'', Some ''1.0'', Some ''test-service'', None],
       [Some ''UserUpdated'', Some ''1.0'', Some ''test-service'', None]]] \<and>
   map (map m_headers \<circ> pr_messages)
     (sends (calls (snd (BaseProducer_publish p_connected ''test-topic'' ''UserCreated''
        (JObject [(''id'', JString ''1'')]) ''1'' (Some correlated) w_connected)))) =
     [[[''event-type'' \<mapsto> ''UserCreated'', ''event-version'' \<mapsto> ''1.0'',
        ''source-service'' \<mapsto> ''test-service'', ''correlation-id'' \<mapsto> ''corr-1'']]] \<and>
   map (map (headers_at [''event-type'', ''event-version'', ''source-service'',
                         ''correlation-id'']) \<circ> pr_messages)
     (sends (calls (snd (BaseProducer_publish p_connected ''test-topic'' ''UserCreated''
        (JObject [(''id'', JString ''1'')]) ''1'' (Some correlated) w_connected)))) =
     [[[Some ''UserCreated'', Some ''1.0'', Some ''test-service'', Some ''corr-1'']]]"
proof -
  have a: "p_producer p_connected \<noteq> None" and b: "p_isConnected p_connected"
    by (simp_all add: p_connected_simps)
  have mw: "fst (map_world (batchMessage p_connected (Some correlated)) batch0 w_connected) =
      Inr [\<lparr>m_key = ''1'',
            m_value = json_text w_connected
              (message_json w_connected
                 \<lparr>eventId = ''id-'', eventType = ''UserCreated'', timestamp = 1000,
                  version = ''1.0'', correlationId = Some ''corr-1'', causationId = None,
                  source = ''test-service''\<rparr> (JObject [(''id'', JString ''1'')])),
            m_headers =
              [''event-type'' \<mapsto> ''UserCreated'', ''event-version'' \<mapsto> ''1.0'',
               ''source-service'' \<mapsto> ''test-service'']\<rparr>,
           \<lparr>m_key = ''2'',
            m_value = json_text w_connected
              (message_json w_connected
                 \<lparr>eventId = ''id-x'', eventType = ''UserUpdated'', timestamp = 1001,
                  version = ''1.0'', correlationId = Some ''corr-1'', causationId = None,
                  source = ''test-service''\<rparr> (JObject [(''id'', JString ''2'')])),
            m_headers =
              [''event-type'' \<mapsto> ''UserUpdated'', ''event-version'' \<mapsto> ''1.0'',
               ''source-service'' \<mapsto> ''test-service'']\<rparr>]"
    by (simp add: batch0_def batchMessage_eq w_connected_fields p_connected_simps
          correlated_def opt_correlationId_def)
  have batch: "map pr_messages
      (sends (calls (snd (BaseProducer_publishBatch p_connected ''test-topic'' batch0
         (Some correlated) w_connected)))) =
      [[\<lparr>m_key = ''1'',
            m_value = json_text w_connected
              (message_json w_connected
                 \<lparr>eventId = ''id-'', eventType = ''UserCreated'', timestamp = 1000,
                  version = ''1.0'', correlationId = Some ''corr-1'', causationId = None,
                  source = ''test-service''\<rparr> (JObject [(''id'', JString ''1'')])),
            m_headers =
              [''event-type'' \<mapsto> ''UserCreated'', ''event-version'' \<mapsto> ''1.0'',
               ''source-service'' \<mapsto> ''test-service'']\<rparr>,
           \<lparr>m_key = ''2'',
            m_value = json_text w_connected
              (message_json w_connected
                 \<lparr>eventId = ''id-x'', eventType = ''UserUpdated'', timestamp = 1001,
                  version = ''1.0'', correlationId = Some ''corr-1'', causationId = None,
                  source = ''test-service''\<rparr> (JObject [(''id'', JString ''2'')])),
            m_headers =
              [''event-type'' \<mapsto> ''UserUpdated'', ''event-version'' \<mapsto> ''1.0'',
               ''source-service'' \<mapsto> ''test-service'']\<rparr>]]"
    using publishBatch_connected_ok [OF a b mw, of "''test-topic''"]
    by (simp add: sends_append w_connected_fields)
  have single: "map pr_messages
      (sends (calls (snd (BaseProducer_publish p_connected ''test-topic'' ''UserCreated''
         (JObject [(''id'', JString ''1'')]) ''1'' (Some correlated) w_connected)))) =
      [[\<lparr>m_key = ''1'',
            m_value = json_text w_connected
              (message_json w_connected
                 \<lparr>eventId = ''id-'', eventType = ''UserCreated'', timestamp = 1000,
                  version = ''1.0'', correlationId = Some ''corr-1'', causationId = None,
                  source = ''test-service''\<rparr> (JObject [(''id'', JString ''1'')])),
            m_headers =
              [''event-type'' \<mapsto> ''UserCreated'', ''event-version'' \<mapsto> ''1.0'',
               ''source-service'' \<mapsto> ''test-service'',
               ''correlation-id'' \<mapsto> ''corr-1'']\<rparr>]]"
    by (simp add: publish_connected_eq [OF a b] w_connected_fields p_connected_simps
          sends_append Let_def log_def correlated_def opt_headers_def opt_correlationId_def
          or_empty_def split: sum.splits)
  show ?thesis
    unfolding map_map [symmetric] batch single
    by (simp add: headers_at_def)
qed

section \<open>The consumer\<close>

text \<open>
  C6.  \<open>start()\<close> on a consumer for which no handler has been registered fails with the
  error \<open>Message handler not set\<close>; the consumer and the world are unchanged, so the
  transport's subscribe primitive is not invoked for any topic.
\<close>

theorem start_without_handler:
  assumes "c_consumer c \<noteq> None" and "c_handler c = None"
  shows "BaseConsumer_start c w = (Inl HandlerNotSet, c, w)"
  using assms by (auto simp add: BaseConsumer_start_def split: option.splits)

theorem start_without_handler_witness:
  "c_consumer (BaseConsumer_new ccfg0) \<noteq> None \<and>
   c_handler (BaseConsumer_new ccfg0) = None \<and>
   BaseConsumer_start (BaseConsumer_new ccfg0) w0 =
     (Inl (Error ''Message handler not set''), BaseConsumer_new ccfg0, w0)"
proof -
  have a: "c_consumer (BaseConsumer_new ccfg0) \<noteq> None"
    by (simp add: BaseConsumer_new_def)
  have b: "c_handler (BaseConsumer_new ccfg0) = None"
    by (simp add: BaseConsumer_new_def)
  from start_without_handler [OF a b, of w0] a b show ?thesis
    by (simp add: HandlerNotSet_def)
qed

text \<open>
  C1.  With a handler registered, the \<open>eachMessage\<close> callback returns exactly what the
  awaited handler returned for the message: normally when the handler completed, with
  the handler's error re-thrown when it raised.  A transport that commits only after a
  normal return therefore records the commit of the message's position in the first
  case and records no commit in the second.
\<close>

theorem eachMessage_propagates:
  assumes "c_handler c = Some h"
  shows "fst (eachMessage c payload w) = h payload \<and>
         fst (deliver c payload w) = h payload \<and>
         commits (calls (snd (deliver c payload w))) =
           commits (calls w) @
             (case h payload of
                Inr _ \<Rightarrow> [(em_topic payload, em_partition payload, em_offset payload)]
              | Inl _ \<Rightarrow> [])"
  using assms
  by (auto simp add: eachMessage_def deliver_def Date_now_def log_def commits_append
           split: sum.splits prod.splits)

theorem eachMessage_propagates_witness:
  "c_handler (setHandler handler_ok (BaseConsumer_new ccfg0)) = Some handler_ok \<and>
   c_handler (setHandler handler_failing (BaseConsumer_new ccfg0)) = Some handler_failing \<and>
   fst (eachMessage (setHandler handler_ok (BaseConsumer_new ccfg0)) payload0 w0) = Inr () \<and>
   commits (calls (snd (deliver (setHandler handler_ok (BaseConsumer_new ccfg0)) payload0 w0)))
     = [(''test-topic'', 0, ''0'')] \<and>
   fst (eachMessage (setHandler handler_failing (BaseConsumer_new ccfg0)) payload0 w0)
     = Inl (Error ''Processing failed'') \<and>
   fst (deliver (setHandler handler_failing (BaseConsumer_new ccfg0)) payload0 w0)
     = Inl (Error ''Processing failed'') \<and>
   commits (calls (snd (deliver (setHandler handler_failing (BaseConsumer_new ccfg0)) payload0 w0)))
     = []"
proof -
  have ok: "c_handler (setHandler handler_ok (BaseConsumer_new ccfg0)) = Some handler_ok"
    by (simp add: setHandler_def)
  have failing:
    "c_handler (setHandler handler_failing (BaseConsumer_new ccfg0)) = Some handler_failing"
    by (simp add: setHandler_def)
  have c0: "calls w0 = []"
    by (simp add: w0_def)
  from eachMessage_propagates [OF ok, of payload0 w0]
    eachMessage_propagates [OF failing, of payload0 w0] ok failing c0
  show ?thesis
    by (simp add: handler_ok_def handler_failing_def payload0_def)
qed

text \<open>
  C4, as the code has it.  On a running consumer \<open>pause()\<close> invokes the transport's
  pause primitive once for the configured topics and \<open>resume()\<close> the transport's resume
  primitive once for the same topics; neither assigns a field of the consumer, which
  keeps no paused state of its own and reports running throughout.  On a consumer that
  is not running both are no-ops: no transport call, no log line, no change of state.
\<close>

theorem pause_resume_delegate:
  "(c_consumer c \<noteq> None \<and> c_isRunning c \<longrightarrow>
      fst (snd (BaseConsumer_pause c w)) = c \<and>
      calls (snd (snd (BaseConsumer_pause c w))) = calls w @ [ConsumerPause (c_topics c)] \<and>
      fst (snd (BaseConsumer_resume c w)) = c \<and>
      calls (snd (snd (BaseConsumer_resume c w))) = calls w @ [ConsumerResume (c_topics c)] \<and>
      calls (snd (snd (BaseConsumer_resume c (snd (snd (BaseConsumer_pause c w)))))) =
        calls w @ [ConsumerPause (c_topics c), ConsumerResume (c_topics c)]) \<and>
   (\<not> c_isRunning c \<longrightarrow>
      BaseConsumer_pause c w = (Inr (), c, w) \<and> BaseConsumer_resume c w = (Inr (), c, w))"
  apply (intro conjI impI)
  subgoal by (rule pause_state)
  subgoal by (simp add: pause_calls)
  subgoal by (rule resume_state)
  subgoal by (simp add: resume_calls)
  subgoal by (simp add: pause_calls resume_calls)
  subgoal by (simp add: BaseConsumer_pause_def)
  subgoal by (simp add: BaseConsumer_resume_def)
  done

theorem pause_resume_delegate_witness:
  "c_consumer c_running \<noteq> None \<and> c_isRunning c_running \<and>
   fst (snd (BaseConsumer_pause c_running w_running)) = c_running \<and>
   calls (snd (snd (BaseConsumer_pause c_running w_running))) =
     [ConsumerConnect, ConsumerSubscribe [''test-topic''] False, ConsumerRun,
      ConsumerPause [''test-topic'']] \<and>
   calls (snd (snd (BaseConsumer_resume c_running
                      (snd (snd (BaseConsumer_pause c_running w_running)))))) =
     [ConsumerConnect, ConsumerSubscribe [''test-topic''] False, ConsumerRun,
      ConsumerPause [''test-topic''], ConsumerResume [''test-topic'']] \<and>
   \<not> c_isRunning (BaseConsumer_new ccfg0) \<and>
   BaseConsumer_pause (BaseConsumer_new ccfg0) w0 = (Inr (), BaseConsumer_new ccfg0, w0) \<and>
   BaseConsumer_resume (BaseConsumer_new ccfg0) w0 = (Inr (), BaseConsumer_new ccfg0, w0)"
proof -
  have idle: "\<not> c_isRunning (BaseConsumer_new ccfg0)"
    by (simp add: BaseConsumer_new_def)
  from pause_resume_delegate [of c_running w_running]
    pause_resume_delegate [of "BaseConsumer_new ccfg0" w0] idle
  show ?thesis
    by (simp add: c_running_simps w_running_calls)
qed

text \<open>
  C4 as stated fails: after \<open>pause()\<close> on a running consumer the object is what it was
  before the call, and \<open>isConsumerRunning()\<close> still answers true.
\<close>

theorem pause_keeps_running_counterexample:
  "isConsumerRunning c_running \<and>
   fst (BaseConsumer_pause c_running w_running) = Inr () \<and>
   fst (snd (BaseConsumer_pause c_running w_running)) = c_running \<and>
   isConsumerRunning (fst (snd (BaseConsumer_pause c_running w_running)))"
  by (simp add: pause_state isConsumerRunning_def c_running_simps BaseConsumer_pause_def
        invoke_def w_running_def BaseConsumer_start_def BaseConsumer_connect_def
        BaseConsumer_new_def setHandler_def log_def w0_def ccfg0_def)

end
